theory Spec2Isabelle
  imports Complex_Main "HOL-Library.Sublist"
begin

section \<open>Python values, faults and findings\<close>

text \<open>
  The harness of \<^verbatim>\<open>fuzz.py\<close> handles loosely typed Python values: integers, floats
  (with their not-a-number value), strings, \<^verbatim>\<open>None\<close>, lists and dictionaries. A
  dictionary is an association list in insertion order, as Python keeps it.
  A finite float is given by the rational it denotes; the rounding of float arithmetic
  is not part of the model.
\<close>

datatype pyfloat = Fin rat | Inf bool | NaN

datatype pyval =
    PNone
  | PInt int
  | PFloat pyfloat
  | PStr string
  | PList "pyval list"
  | PDict "(string \<times> pyval) list"

text \<open>
  A fault is an exception object that a call raises. \<open>kind\<close> is the name of its class
  and \<open>message\<close> the rendering of its arguments (for \<^verbatim>\<open>ValueError('bad')\<close> the text
  \<^verbatim>\<open>'bad'\<close>, quotes included); \<^verbatim>\<open>repr\<close> of the object is the kind followed by the
  arguments in parentheses. Two more things about the object decide what the harness
  does with it:
  \<^item> \<open>is_Exception\<close>: its class derives from \<^verbatim>\<open>Exception\<close>, so that
    \<^verbatim>\<open>except Exception as exc\<close> catches it. \<^verbatim>\<open>KeyboardInterrupt\<close>, \<^verbatim>\<open>SystemExit\<close> and
    \<^verbatim>\<open>GeneratorExit\<close> derive from \<^verbatim>\<open>BaseException\<close> only and pass through.
  \<^item> \<open>truthy\<close>: the value of \<^verbatim>\<open>bool(exc)\<close>, which \<^verbatim>\<open>if error:\<close> in \<^verbatim>\<open>record_issue\<close>
    tests. The built-in exception classes define neither \<^verbatim>\<open>__bool__\<close> nor
    \<^verbatim>\<open>__len__\<close> and their instances are truthy; a subclass may define either and be
    falsy.
\<close>

datatype exn =
  PyException (kind: string) (message: string) (is_Exception: bool) (truthy: bool)

text \<open>An instance of a built-in subclass of \<^verbatim>\<open>Exception\<close>.\<close>

definition builtin_error :: "string \<Rightarrow> string \<Rightarrow> exn" where
  "builtin_error k m = PyException k m True True"

definition repr_exn :: "exn \<Rightarrow> string" where
  "repr_exn e = kind e @ ''('' @ message e @ '')''"

definition quoted :: "string \<Rightarrow> string" where
  "quoted s = [CHR 0x27] @ s @ [CHR 0x27]"

type_synonym issue = "(string \<times> pyval) list"

text \<open>\<^verbatim>\<open>d[k] = v\<close> on a dictionary: replace the value of an existing key in place, or
  add the key at the end.\<close>

fun dict_setitem :: "(string \<times> pyval) list \<Rightarrow> string \<Rightarrow> pyval \<Rightarrow> (string \<times> pyval) list" where
  "dict_setitem [] k v = [(k, v)]"
| "dict_setitem ((k', v') # d) k v =
     (if k' = k then (k', v) # d else (k', v') # dict_setitem d k v)"

text \<open>\<^verbatim>\<open>record_issue\<close> (lines 39-49). The list \<open>issues\<close> is mutated in place by the
  source; the model returns the list after the call. Line 47, \<^verbatim>\<open>if error:\<close>, is false
  for \<^verbatim>\<open>None\<close> and for a falsy exception object.\<close>

definition record_issue ::
  "issue list \<Rightarrow> string \<Rightarrow> string \<Rightarrow> pyval \<Rightarrow> exn option \<Rightarrow> issue list" where
  "record_issue issues function_name detail payload error =
     (let issue = [(''function'', PStr function_name), (''detail'', PStr detail),
                   (''payload'', payload)];
          issue' = (case error of
                      None \<Rightarrow> issue
                    | Some e \<Rightarrow>
                        if truthy e then dict_setitem issue ''error'' (PStr (repr_exn e))
                        else issue)
      in issues @ [issue'])"

section \<open>The random source\<close>

text \<open>
  The module-level generator of \<^verbatim>\<open>random\<close> is shared by every campaign. Its state is
  the infinite sequence of raw draws still to come; each primitive consumes the first
  one. Every sequence of results of the primitives arises from some state.
  All calls of \<^verbatim>\<open>randint a b\<close> in the source have \<open>a \<le> b\<close> and all calls of
  \<^verbatim>\<open>choice\<close> a non-empty list, so neither raises.
\<close>

type_synonym rng = "nat \<Rightarrow> nat"

definition advance :: "rng \<Rightarrow> rng" where
  "advance g = (\<lambda>i. g (Suc i))"

definition randint :: "int \<Rightarrow> int \<Rightarrow> rng \<Rightarrow> int \<times> rng" where
  "randint a b g = (a + int (g 0 mod nat (b - a + 1)), advance g)"

definition random :: "rng \<Rightarrow> pyfloat \<times> rng" where
  "random g = (Fin (Fract (int (g 0 mod 2 ^ 53)) (2 ^ 53)), advance g)"

definition choice :: "'a list \<Rightarrow> rng \<Rightarrow> 'a \<times> rng" where
  "choice xs g = (xs ! (g 0 mod length xs), advance g)"

text \<open>A state given by its first draws, all later draws being 0.\<close>

definition draws_of :: "nat list \<Rightarrow> rng" where
  "draws_of xs = (\<lambda>i. if i < length xs then xs ! i else 0)"

text \<open>\<^verbatim>\<open>[random.randint(a, b) for _ in range(n)]\<close>\<close>

fun randints :: "nat \<Rightarrow> int \<Rightarrow> int \<Rightarrow> rng \<Rightarrow> int list \<times> rng" where
  "randints 0 a b g = ([], g)"
| "randints (Suc n) a b g =
     (let (x, g1) = randint a b g; (xs, g2) = randints n a b g1 in (x # xs, g2))"

text \<open>
  A \<^verbatim>\<open>for _ in range(iterations)\<close> loop over a loop body. The body maps the state before
  a trial to the state after it, or raises: an exception that leaves the body leaves the
  loop, and the trials after it do not run. \<^verbatim>\<open>range\<close> of a non-positive number is
  empty.
\<close>

fun for_range :: "nat \<Rightarrow> ('s \<Rightarrow> 'e + 's) \<Rightarrow> 's \<Rightarrow> 'e + 's" where
  "for_range 0 body s = Inr s"
| "for_range (Suc n) body s =
     (case body s of Inl e \<Rightarrow> Inl e | Inr s' \<Rightarrow> for_range n body s')"

section \<open>The chunking campaign\<close>

text \<open>
  The target \<^verbatim>\<open>mining.makeChunks\<close> is not part of the harness. It is a parameter that
  stands for \<^verbatim>\<open>list(mining.makeChunks(data, size))\<close>: it yields the list of chunks, or the
  fault raised while producing it. Targets are taken to leave their arguments unchanged.
\<close>

type_synonym make_chunks_target = "int list \<Rightarrow> int \<Rightarrow> exn + int list list"

text \<open>Lines 55-57: the generated input of one trial.\<close>

definition chunk_input :: "rng \<Rightarrow> (int list \<times> int) \<times> rng" where
  "chunk_input g =
     (let (list_len, g1) = randint 0 40 g;
          (data, g2) = randints (nat list_len) (- 1000) 1000 g1;
          (r, g3) = randint 1 (max 1 list_len) g2;
          (sz, g4) = choice [0, - 1, r] g3
      in ((data, sz), g4))"

text \<open>Lines 58-82: the invocation under \<^verbatim>\<open>try\<close> and the two checks. The result is the
  issue list after the trial, or the exception that \<^verbatim>\<open>except Exception\<close> lets through.\<close>

definition check_make_chunks ::
  "make_chunks_target \<Rightarrow> issue list \<Rightarrow> int list \<Rightarrow> int \<Rightarrow> exn + issue list" where
  "check_make_chunks makeChunks issues data sz =
     (case makeChunks data sz of
        Inr chunks \<Rightarrow>
          (let flattened = concat chunks;
               issues1 =
                 (if sz \<le> 0 \<and> chunks \<noteq> [] then
                    record_issue issues ''makeChunks''
                      ''Expected empty result when chunk size is non-positive''
                      (PDict [(''size'', PInt sz), (''len'', PInt (int (length data))),
                              (''result_len'', PInt (int (length chunks)))])
                      None
                  else issues)
           in Inr (if sz > 0 \<and> flattened \<noteq> data then
                     record_issue issues1 ''makeChunks'' ''Chunk reconstruction mismatch''
                       (PDict [(''size'', PInt sz),
                               (''original_len'', PInt (int (length data))),
                               (''flattened_len'', PInt (int (length flattened)))])
                       None
                   else issues1))
      | Inl exc \<Rightarrow>
          if is_Exception exc then
            Inr (record_issue issues ''makeChunks'' ''Exception during chunking''
                   (PDict [(''size'', PInt sz), (''len'', PInt (int (length data)))])
                   (Some exc))
          else Inl exc)"

definition make_chunks_trial ::
  "make_chunks_target \<Rightarrow> issue list \<times> rng \<Rightarrow> exn + issue list \<times> rng" where
  "make_chunks_trial makeChunks s =
     (let (issues, g) = s; ((data, sz), g') = chunk_input g
      in case check_make_chunks makeChunks issues data sz of
           Inl exc \<Rightarrow> Inl exc
         | Inr issues' \<Rightarrow> Inr (issues', g'))"

definition fuzz_make_chunks ::
  "make_chunks_target \<Rightarrow> int \<Rightarrow> rng \<Rightarrow> exn + issue list \<times> rng" where
  "fuzz_make_chunks makeChunks iterations g =
     for_range (nat iterations) (make_chunks_trial makeChunks) ([], g)"

section \<open>The date-difference campaign\<close>

text \<open>
  \<^verbatim>\<open>datetime\<close> values of the standard library, as far as the harness uses them: every
  timestamp it builds has second and microsecond 0. The calendar arithmetic follows the
  library's proleptic Gregorian ordinals (day 1 is 0001-01-01).
\<close>

record datetime =
  year :: int
  month :: int
  day :: int
  hour :: int
  minute :: int

definition is_leap :: "int \<Rightarrow> bool" where
  "is_leap y = (y mod 4 = 0 \<and> (y mod 100 \<noteq> 0 \<or> y mod 400 = 0))"

definition days_before_year :: "int \<Rightarrow> int" where
  "days_before_year y = (y - 1) * 365 + (y - 1) div 4 - (y - 1) div 100 + (y - 1) div 400"

definition DAYS_IN_MONTH :: "int list" where
  "DAYS_IN_MONTH = [- 1, 31, 28, 31, 30, 31, 30, 31, 31, 30, 31, 30, 31]"

definition DAYS_BEFORE_MONTH :: "int list" where
  "DAYS_BEFORE_MONTH = [- 1, 0, 31, 59, 90, 120, 151, 181, 212, 243, 273, 304, 334]"

definition days_before_month :: "int \<Rightarrow> int \<Rightarrow> int" where
  "days_before_month y m =
     DAYS_BEFORE_MONTH ! nat m + (if m > 2 \<and> is_leap y then 1 else 0)"

definition ymd2ord :: "int \<Rightarrow> int \<Rightarrow> int \<Rightarrow> int" where
  "ymd2ord y m d = days_before_year y + days_before_month y m + d"

definition ord2ymd :: "int \<Rightarrow> int \<times> int \<times> int" where
  "ord2ymd n0 =
     (let n = n0 - 1;
          n400 = n div 146097; n = n mod 146097;
          y = n400 * 400 + 1;
          n100 = n div 36524; n = n mod 36524;
          n4 = n div 1461; n = n mod 1461;
          n1 = n div 365; n = n mod 365;
          y = y + n100 * 100 + n4 * 4 + n1
      in if n1 = 4 \<or> n100 = 4 then (y - 1, 12, 31)
         else
           (let leapyear = (n1 = 3 \<and> (n4 \<noteq> 24 \<or> n100 = 3));
                m = (n + 50) div 32;
                preceding = DAYS_BEFORE_MONTH ! nat m + (if m > 2 \<and> leapyear then 1 else 0);
                (m, preceding) =
                  (if preceding > n
                   then (m - 1, preceding - (DAYS_IN_MONTH ! nat (m - 1)
                                             + (if m - 1 = 2 \<and> leapyear then 1 else 0)))
                   else (m, preceding))
            in (y, m, n - preceding + 1)))"

text \<open>\<^verbatim>\<open>start_date + dt.timedelta(days=delta_days)\<close>: the date moves by whole days, the
  time of day stays. The library raises OverflowError when the ordinal leaves
  1..3652059; the dates of the harness (1990 to 2030, moved by at most 1000 days) stay
  far inside.\<close>

definition plus_days :: "datetime \<Rightarrow> int \<Rightarrow> datetime" where
  "plus_days t delta_days =
     (let (y, m, d) = ord2ymd (ymd2ord (year t) (month t) (day t) + delta_days)
      in t\<lparr>year := y, month := m, day := d\<rparr>)"

definition digit_char :: "nat \<Rightarrow> char" where
  "digit_char n = ''0123456789'' ! n"

fun str_nat :: "nat \<Rightarrow> string" where
  "str_nat n = (if n < 10 then [digit_char n] else str_nat (n div 10) @ [digit_char (n mod 10)])"

declare str_nat.simps [simp del]

text \<open>\<^verbatim>\<open>str\<close> of an integer.\<close>

definition str_int :: "int \<Rightarrow> string" where
  "str_int i = (if i < 0 then ''-'' @ str_nat (nat (- i)) else str_nat (nat i))"

text \<open>The format \<^verbatim>\<open>%0wd\<close> for a non-negative number.\<close>

definition zero_pad :: "nat \<Rightarrow> int \<Rightarrow> string" where
  "zero_pad w i = (let s = str_int i in replicate (w - length s) CHR ''0'' @ s)"

text \<open>\<^verbatim>\<open>isoformat()\<close> of a timestamp whose second and microsecond are 0.\<close>

definition isoformat :: "datetime \<Rightarrow> string" where
  "isoformat t =
     zero_pad 4 (year t) @ ''-'' @ zero_pad 2 (month t) @ ''-'' @ zero_pad 2 (day t)
     @ ''T'' @ zero_pad 2 (hour t) @ '':'' @ zero_pad 2 (minute t) @ '':00''"

text \<open>The target \<^verbatim>\<open>mining.days_between\<close>: an integer day count, or the fault raised.\<close>

type_synonym days_between_target = "datetime \<Rightarrow> datetime \<Rightarrow> exn + int"

text \<open>Lines 89-98.\<close>

definition date_pair_input :: "rng \<Rightarrow> (datetime \<times> datetime) \<times> rng" where
  "date_pair_input g =
     (let (start_year, g1) = randint 1990 2030 g;
          (mo, g2) = randint 1 12 g1;
          (d, g3) = randint 1 28 g2;
          (h, g4) = randint 0 23 g3;
          (mi, g5) = randint 0 59 g4;
          start_date = \<lparr>year = start_year, month = mo, day = d, hour = h, minute = mi\<rparr>;
          (delta_days, g6) = randint (- 1000) 1000 g5;
          end_date = plus_days start_date delta_days
      in ((start_date, end_date), g6))"

text \<open>Lines 99-115.\<close>

definition check_days_between ::
  "days_between_target \<Rightarrow> issue list \<Rightarrow> datetime \<Rightarrow> datetime \<Rightarrow> exn + issue list" where
  "check_days_between days_between issues start_date end_date =
     (case days_between start_date end_date of
        Inr result \<Rightarrow>
          Inr (if result < 0 then
                 record_issue issues ''days_between'' ''Negative delta returned''
                   (PDict [(''start'', PStr (isoformat start_date)),
                           (''end'', PStr (isoformat end_date)),
                           (''result'', PInt result)])
                   None
               else issues)
      | Inl exc \<Rightarrow>
          if is_Exception exc then
            Inr (record_issue issues ''days_between'' ''Exception during computation''
                   (PDict [(''start'', PStr (isoformat start_date)),
                           (''end'', PStr (isoformat end_date))])
                   (Some exc))
          else Inl exc)"

definition days_between_trial ::
  "days_between_target \<Rightarrow> issue list \<times> rng \<Rightarrow> exn + issue list \<times> rng" where
  "days_between_trial days_between s =
     (let (issues, g) = s; ((start_date, end_date), g') = date_pair_input g
      in case check_days_between days_between issues start_date end_date of
           Inl exc \<Rightarrow> Inl exc
         | Inr issues' \<Rightarrow> Inr (issues', g'))"

definition fuzz_days_between ::
  "days_between_target \<Rightarrow> int \<Rightarrow> rng \<Rightarrow> exn + issue list \<times> rng" where
  "fuzz_days_between days_between iterations g =
     for_range (nat iterations) (days_between_trial days_between) ([], g)"

section \<open>The content-dump campaign\<close>

text \<open>
  The file system maps a path to what exists there: a directory or a file, with the size
  that \<^verbatim>\<open>stat\<close> reports. A path is the string \<^verbatim>\<open>str(file_path)\<close>; joining a directory and
  a name puts a slash between them.
\<close>

datatype node = Node (is_dir: bool) (st_size: nat)

type_synonym fs = "string \<Rightarrow> node option"

definition path_join :: "string \<Rightarrow> string \<Rightarrow> string" where
  "path_join d name = d @ ''/'' @ name"

text \<open>Something that is not a directory exists at the path.\<close>

definition is_file :: "fs \<Rightarrow> string \<Rightarrow> bool" where
  "is_file files p = (case files p of None \<Rightarrow> False | Some n \<Rightarrow> \<not> is_dir n)"

text \<open>\<^verbatim>\<open>file_path.stat().st_size\<close>, which raises when nothing exists at the path.\<close>

definition stat_size :: "fs \<Rightarrow> string \<Rightarrow> exn + nat" where
  "stat_size files p =
     (case files p of
        None \<Rightarrow> Inl (builtin_error ''FileNotFoundError''
                      (''2, '' @ quoted ''No such file or directory''))
      | Some n \<Rightarrow> Inr (st_size n))"

text \<open>
  \<^verbatim>\<open>tempfile.TemporaryDirectory()\<close> creates a directory under a name of the library's
  choosing, one that is free; here the name is the parameter \<open>temp_dir\<close>.

  Leaving the \<^verbatim>\<open>with\<close> block, on any way out, calls the directory's \<^verbatim>\<open>cleanup\<close>: it
  removes the directory and everything below it, and it is content when the directory
  is gone already. It raises when the removal fails with anything other than a missing
  file or a permission it can repair. The failure in the model is the one that the
  contents of the file system decide: a regular file stands where the directory was,
  and \<^verbatim>\<open>rmtree\<close> raises \<^verbatim>\<open>NotADirectoryError\<close> and removes nothing.
\<close>

definition mkdtemp :: "string \<Rightarrow> fs \<Rightarrow> fs" where
  "mkdtemp temp_dir files = files(temp_dir \<mapsto> Node True 4096)"

definition cleanup :: "string \<Rightarrow> fs \<Rightarrow> exn + fs" where
  "cleanup temp_dir files =
     (if is_file files temp_dir then
        Inl (builtin_error ''NotADirectoryError'' (''20, '' @ quoted ''Not a directory''))
      else
        Inr (\<lambda>p. if p = temp_dir \<or> prefix (temp_dir @ ''/'') p then None else files p))"

text \<open>
  The target stands for \<^verbatim>\<open>int(mining.dumpContentIntoFile(content, str(file_path)))\<close>, the
  call and its conversion, both inside the \<^verbatim>\<open>try\<close>: the reported size or the fault
  raised, and the file system it leaves behind.
\<close>

type_synonym dump_target = "string \<Rightarrow> string \<Rightarrow> fs \<Rightarrow> (exn + int) \<times> fs"

text \<open>Lines 123-124: the draws of one trial, the content and the number in the file name,
  and the input made of them.\<close>

definition dump_draws :: "rng \<Rightarrow> (string \<times> int) \<times> rng" where
  "dump_draws g =
     (let (n, g1) = randint 0 2048 g;
          (codes, g2) = randints (nat n) 32 126 g1;
          content = map char_of codes;
          (k, g3) = randint 0 999999 g2
      in ((content, k), g3))"

definition fuzz_path :: "string \<Rightarrow> int \<Rightarrow> string" where
  "fuzz_path temp_dir k = path_join temp_dir (''fuzz-'' @ str_int k @ ''.txt'')"

definition dump_input :: "string \<Rightarrow> rng \<Rightarrow> (string \<times> string) \<times> rng" where
  "dump_input temp_dir g =
     (let ((content, k), g') = dump_draws g in ((content, fuzz_path temp_dir k), g'))"

text \<open>Lines 125-142. The result is the issue list after the trial, or the exception that
  \<^verbatim>\<open>except Exception\<close> lets through, and in both cases the file system as the target
  left it.\<close>

definition check_dump_content ::
  "dump_target \<Rightarrow> issue list \<Rightarrow> string \<Rightarrow> string \<Rightarrow> fs \<Rightarrow> (exn + issue list) \<times> fs" where
  "check_dump_content dumpContentIntoFile issues content file_path files =
     (let handler = (\<lambda>exc.
            if is_Exception exc then
              Inr (record_issue issues ''dumpContentIntoFile'' ''Exception during write''
                     (PDict [(''path'', PStr file_path),
                             (''len'', PInt (int (length content)))])
                     (Some exc))
            else Inl exc)
      in case dumpContentIntoFile content file_path files of
           (Inl exc, files') \<Rightarrow> (handler exc, files')
         | (Inr written_size, files') \<Rightarrow>
             (case stat_size files' file_path of
                Inl exc \<Rightarrow> (handler exc, files')
              | Inr on_disk \<Rightarrow>
                  (Inr (if written_size \<noteq> int on_disk then
                          record_issue issues ''dumpContentIntoFile'' ''Reported size mismatch''
                            (PDict [(''reported'', PInt written_size),
                                    (''actual'', PInt (int on_disk)),
                                    (''path'', PStr file_path)])
                            None
                        else issues), files')))"

text \<open>One trial. An exception that leaves it comes with the file system of that moment,
  which the \<^verbatim>\<open>with\<close> block still has to clean.\<close>

definition dump_trial ::
  "dump_target \<Rightarrow> string \<Rightarrow> issue list \<times> rng \<times> fs
     \<Rightarrow> exn \<times> fs + issue list \<times> rng \<times> fs" where
  "dump_trial dumpContentIntoFile temp_dir s =
     (let (issues, g, files) = s;
          ((content, file_path), g') = dump_input temp_dir g
      in case check_dump_content dumpContentIntoFile issues content file_path files of
           (Inl exc, files') \<Rightarrow> Inl (exc, files')
         | (Inr issues', files') \<Rightarrow> Inr (issues', g', files'))"

text \<open>
  \<^verbatim>\<open>fuzz_dump_content\<close> (lines 119-143). The \<^verbatim>\<open>with\<close> block runs the loop and then, on
  both ways out of the loop, the cleanup. When the loop ends normally the campaign
  returns its issues, unless the cleanup raises. When an exception leaves the loop it
  goes on after the cleanup, unless the cleanup raises, and then that exception
  replaces it. The file system at the end is part of the result in every case.
\<close>

definition fuzz_dump_content ::
  "dump_target \<Rightarrow> string \<Rightarrow> int \<Rightarrow> rng \<times> fs \<Rightarrow> exn \<times> fs + issue list \<times> rng \<times> fs" where
  "fuzz_dump_content dumpContentIntoFile temp_dir iterations w =
     (let (g, files) = w
      in case for_range (nat iterations) (dump_trial dumpContentIntoFile temp_dir)
                ([], g, mkdtemp temp_dir files) of
           Inr (issues, g', files') \<Rightarrow>
             (case cleanup temp_dir files' of
                Inl exc \<Rightarrow> Inl (exc, files')
              | Inr files'' \<Rightarrow> Inr (issues, g', files''))
         | Inl (exc, files') \<Rightarrow>
             (case cleanup temp_dir files' of
                Inl exc' \<Rightarrow> Inl (exc', files')
              | Inr files'' \<Rightarrow> Inl (exc, files'')))"

text \<open>The destination paths of the trials of one campaign, in order: the path of the first
  trial, then those of the campaign that goes on from the state the trial leaves, if it
  goes on. \<open>trial_numbers\<close> lists the numbers drawn for the file names in the same
  way.\<close>

fun trial_paths :: "dump_target \<Rightarrow> string \<Rightarrow> nat \<Rightarrow> issue list \<times> rng \<times> fs \<Rightarrow> string list" where
  "trial_paths t temp_dir 0 s = []"
| "trial_paths t temp_dir (Suc n) s =
     snd (fst (dump_input temp_dir (fst (snd s))))
       # (case dump_trial t temp_dir s of
            Inl _ \<Rightarrow> []
          | Inr s' \<Rightarrow> trial_paths t temp_dir n s')"

fun trial_numbers :: "dump_target \<Rightarrow> string \<Rightarrow> nat \<Rightarrow> issue list \<times> rng \<times> fs \<Rightarrow> int list" where
  "trial_numbers t temp_dir 0 s = []"
| "trial_numbers t temp_dir (Suc n) s =
     snd (fst (dump_draws (fst (snd s))))
       # (case dump_trial t temp_dir s of
            Inl _ \<Rightarrow> []
          | Inr s' \<Rightarrow> trial_numbers t temp_dir n s')"

section \<open>The Average and Median campaigns\<close>

text \<open>\<^verbatim>\<open>float * int\<close>.\<close>

fun fmul_int :: "pyfloat \<Rightarrow> int \<Rightarrow> pyfloat" where
  "fmul_int (Fin r) k = Fin (r * of_int k)"
| "fmul_int (Inf s) k = (if k = 0 then NaN else Inf (s \<noteq> (k < 0)))"
| "fmul_int NaN k = NaN"

text \<open>\<^verbatim>\<open>[random.choice(options) for _ in range(n)]\<close>\<close>

fun choices :: "nat \<Rightarrow> 'a list \<Rightarrow> rng \<Rightarrow> 'a list \<times> rng" where
  "choices 0 options g = ([], g)"
| "choices (Suc n) options g =
     (let (x, g1) = choice options g; (xs, g2) = choices n options g1 in (x # xs, g2))"

text \<open>Lines 148-154: the list \<^verbatim>\<open>options\<close>, built once per call.\<close>

definition numeric_options :: "rng \<Rightarrow> pyval list \<times> rng" where
  "numeric_options g =
     (let (n, g1) = randint (- 1000) 1000 g;
          (u, g2) = random g1;
          (k, g3) = randint (- 10) 10 g2
      in ([PInt n, PFloat (fmul_int u k), PStr [], PNone, PStr ''noise''], g3))"

text \<open>\<^verbatim>\<open>_generate_numeric_list\<close> (lines 146-155).\<close>

definition generate_numeric_list :: "rng \<Rightarrow> pyval list \<times> rng" where
  "generate_numeric_list g =
     (let (options, g1) = numeric_options g;
          (n, g2) = randint 0 20 g1
      in choices (nat n) options g2)"

text \<open>The targets \<^verbatim>\<open>report.Average\<close> and \<^verbatim>\<open>report.Median\<close>: a value, or the fault raised.\<close>

type_synonym numeric_target = "pyval list \<Rightarrow> exn + pyval"

text \<open>\<^verbatim>\<open>isinstance(result, float) and math.isnan(result)\<close>\<close>

fun is_float_nan :: "pyval \<Rightarrow> bool" where
  "is_float_nan (PFloat x) = (x = NaN)"
| "is_float_nan _ = False"

text \<open>Lines 162-172 and 180-190; the two campaigns differ in the target and in the
  texts.\<close>

definition check_average ::
  "numeric_target \<Rightarrow> issue list \<Rightarrow> pyval list \<Rightarrow> exn + issue list" where
  "check_average Average issues payload =
     (case Average payload of
        Inr result \<Rightarrow>
          Inr (if is_float_nan result \<and> payload \<noteq> [] then
                 record_issue issues ''Average'' ''Average returned NaN for payload with data''
                   (PList payload) None
               else issues)
      | Inl exc \<Rightarrow>
          if is_Exception exc then
            Inr (record_issue issues ''Average'' ''Exception during average''
                   (PList payload) (Some exc))
          else Inl exc)"

definition check_median ::
  "numeric_target \<Rightarrow> issue list \<Rightarrow> pyval list \<Rightarrow> exn + issue list" where
  "check_median Median issues payload =
     (case Median payload of
        Inr result \<Rightarrow>
          Inr (if is_float_nan result \<and> payload \<noteq> [] then
                 record_issue issues ''Median'' ''Median returned NaN for payload with data''
                   (PList payload) None
               else issues)
      | Inl exc \<Rightarrow>
          if is_Exception exc then
            Inr (record_issue issues ''Median'' ''Exception during median''
                   (PList payload) (Some exc))
          else Inl exc)"

definition average_trial ::
  "numeric_target \<Rightarrow> issue list \<times> rng \<Rightarrow> exn + issue list \<times> rng" where
  "average_trial Average s =
     (let (issues, g) = s; (payload, g') = generate_numeric_list g
      in case check_average Average issues payload of
           Inl exc \<Rightarrow> Inl exc
         | Inr issues' \<Rightarrow> Inr (issues', g'))"

definition median_trial ::
  "numeric_target \<Rightarrow> issue list \<times> rng \<Rightarrow> exn + issue list \<times> rng" where
  "median_trial Median s =
     (let (issues, g) = s; (payload, g') = generate_numeric_list g
      in case check_median Median issues payload of
           Inl exc \<Rightarrow> Inl exc
         | Inr issues' \<Rightarrow> Inr (issues', g'))"

definition fuzz_average :: "numeric_target \<Rightarrow> int \<Rightarrow> rng \<Rightarrow> exn + issue list \<times> rng" where
  "fuzz_average Average iterations g =
     for_range (nat iterations) (average_trial Average) ([], g)"

definition fuzz_median :: "numeric_target \<Rightarrow> int \<Rightarrow> rng \<Rightarrow> exn + issue list \<times> rng" where
  "fuzz_median Median iterations g =
     for_range (nat iterations) (median_trial Median) ([], g)"

section \<open>The run\<close>

text \<open>
  \<^verbatim>\<open>main\<close> (lines 194-217) runs the five campaigns in order with their default iteration
  counts, on the shared random source and the file system, and returns 0. It has no
  \<^verbatim>\<open>try\<close>: an exception that leaves a campaign leaves \<^verbatim>\<open>main\<close>, and the campaigns after
  it do not run. The log lines are left out; the list \<open>all_issues\<close>, which \<^verbatim>\<open>main\<close>
  logs at the end, is returned beside the exit status.
\<close>

record targets =
  makeChunks :: make_chunks_target
  days_between :: days_between_target
  dumpContentIntoFile :: dump_target
  Average :: numeric_target
  Median :: numeric_target

type_synonym world = "rng \<times> fs"

text \<open>A campaign that leaves the file system alone, as a step on the world.\<close>

definition on_rng ::
  "(rng \<Rightarrow> exn + issue list \<times> rng) \<Rightarrow> world \<Rightarrow> exn + issue list \<times> world" where
  "on_rng campaign w =
     (let (g, files) = w
      in case campaign g of
           Inl exc \<Rightarrow> Inl exc
         | Inr (issues, g') \<Rightarrow> Inr (issues, (g', files)))"

definition fuzzers ::
  "targets \<Rightarrow> string \<Rightarrow> (string \<times> (world \<Rightarrow> exn + issue list \<times> world)) list" where
  "fuzzers ts temp_dir =
     [(''makeChunks'', on_rng (fuzz_make_chunks (makeChunks ts) 200)),
      (''days_between'', on_rng (fuzz_days_between (days_between ts) 200)),
      (''dumpContentIntoFile'',
         \<lambda>w. case fuzz_dump_content (dumpContentIntoFile ts) temp_dir 50 w of
                Inl (exc, files') \<Rightarrow> Inl exc
              | Inr (issues, g', files') \<Rightarrow> Inr (issues, (g', files'))),
      (''Average'', on_rng (fuzz_average (Average ts) 200)),
      (''Median'', on_rng (fuzz_median (Median ts) 200))]"

fun run_fuzzers ::
  "(string \<times> (world \<Rightarrow> exn + issue list \<times> world)) list \<Rightarrow> issue list \<Rightarrow> world
     \<Rightarrow> exn + issue list \<times> world" where
  "run_fuzzers [] all_issues w = Inr (all_issues, w)"
| "run_fuzzers ((name, func) # rest) all_issues w =
     (case func w of
        Inl exc \<Rightarrow> Inl exc
      | Inr (issues, w') \<Rightarrow>
          run_fuzzers rest (if issues \<noteq> [] then all_issues @ issues else all_issues) w')"

definition main :: "targets \<Rightarrow> string \<Rightarrow> world \<Rightarrow> exn + int \<times> issue list \<times> world" where
  "main ts temp_dir w =
     (case run_fuzzers (fuzzers ts temp_dir) [] w of
        Inl exc \<Rightarrow> Inl exc
      | Inr (all_issues, w') \<Rightarrow> Inr (0, all_issues, w'))"

section \<open>Predicates of the properties\<close>


text \<open>A property of what a call returns, when it returns.\<close>

definition on_return :: "('a \<Rightarrow> bool) \<Rightarrow> 'e + 'a \<Rightarrow> bool" where
  "on_return P r = (case r of Inl _ \<Rightarrow> True | Inr x \<Rightarrow> P x)"

text \<open>The call returns, and what it returns has the property.\<close>

definition returns :: "('a \<Rightarrow> bool) \<Rightarrow> 'e + 'a \<Rightarrow> bool" where
  "returns P r = (case r of Inl _ \<Rightarrow> False | Inr x \<Rightarrow> P x)"


text \<open>A present value that is a non-empty string; a value that, when present, is a string.\<close>

fun nonempty_str :: "pyval option \<Rightarrow> bool" where
  "nonempty_str (Some (PStr s)) = (s \<noteq> [])"
| "nonempty_str _ = False"

fun optional_str :: "pyval option \<Rightarrow> bool" where
  "optional_str None = True"
| "optional_str (Some (PStr s)) = True"
| "optional_str _ = False"

text \<open>The shape of a finding: the fields function, detail and payload, in this order, then
  possibly the field error; function and detail hold non-empty strings, error a string.\<close>

definition finding_fields_ok :: "issue \<Rightarrow> bool" where
  "finding_fields_ok f =
     ((map fst f = [''function'', ''detail'', ''payload'']
       \<or> map fst f = [''function'', ''detail'', ''payload'', ''error''])
      \<and> nonempty_str (map_of f ''function'')
      \<and> nonempty_str (map_of f ''detail'')
      \<and> optional_str (map_of f ''error''))"

section \<open>Evaluation on concrete inputs\<close>

lemma record_issue_append:
  "record_issue issues f d p err =
     issues @ [[(''function'', PStr f), (''detail'', PStr d), (''payload'', p)] @
               (case err of
                  None \<Rightarrow> []
                | Some e \<Rightarrow> if truthy e then [(''error'', PStr (repr_exn e))] else [])]"
  by (simp add: record_issue_def split: option.split)

lemma for_range_numeral:
  "for_range (numeral k) body s =
     (case body s of Inl e \<Rightarrow> Inl e | Inr s' \<Rightarrow> for_range (pred_numeral k) body s')"
  by (simp add: numeral_eq_Suc)

lemma randints_numeral:
  "randints (numeral k) a b g =
     (let (x, g1) = randint a b g; (xs, g2) = randints (pred_numeral k) a b g1 in (x # xs, g2))"
  by (simp add: numeral_eq_Suc)

lemma choices_numeral:
  "choices (numeral k) options g =
     (let (x, g1) = choice options g; (xs, g2) = choices (pred_numeral k) options g1
      in (x # xs, g2))"
  by (simp add: numeral_eq_Suc)

lemma draws_of_advance: "advance (draws_of (x # xs)) = draws_of xs"
  by (auto simp: advance_def draws_of_def fun_eq_iff)

lemma draws_of_advance_Nil: "advance (draws_of []) = draws_of []"
  by (auto simp: advance_def draws_of_def fun_eq_iff)

lemma draws_of_0: "draws_of (x # xs) 0 = x" "draws_of [] 0 = 0"
  by (auto simp: draws_of_def)

lemmas rng_eval = randint_def choice_def random_def draws_of_advance draws_of_advance_Nil
  draws_of_0 randints_numeral choices_numeral

lemma plus_days_scenario:
  "plus_days \<lparr>year = 2020, month = 1, day = 15, hour = 0, minute = 0\<rparr> (- 5)
     = \<lparr>year = 2020, month = 1, day = 10, hour = 0, minute = 0\<rparr>"
  by (simp add: plus_days_def ymd2ord_def ord2ymd_def days_before_year_def
        days_before_month_def DAYS_BEFORE_MONTH_def DAYS_IN_MONTH_def is_leap_def Let_def)

lemma isoformat_scenario:
  "isoformat \<lparr>year = 2020, month = 1, day = 15, hour = 0, minute = 0\<rparr> = ''2020-01-15T00:00:00''"
  "isoformat \<lparr>year = 2020, month = 1, day = 10, hour = 0, minute = 0\<rparr> = ''2020-01-10T00:00:00''"
  by (simp_all add: isoformat_def zero_pad_def str_int_def str_nat.simps digit_char_def Let_def)

lemma dump_input_zero:
  "dump_input d (draws_of [0, 7, 0, 7]) = (([], fuzz_path d 7), draws_of [0, 7])"
  "dump_input d (draws_of [0, 7]) = (([], fuzz_path d 7), draws_of [])"
  by (simp_all add: dump_input_def dump_draws_def rng_eval)

lemma fuzz_path_7: "fuzz_path ''/tmp/tmpab12'' 7 = ''/tmp/tmpab12/fuzz-7.txt''"
  by (simp add: fuzz_path_def path_join_def str_int_def str_nat.simps digit_char_def)


section \<open>The issue recorder\<close>

text \<open>
  C6. The recorder appends exactly one finding at the end of the collection and leaves
  the earlier entries as they were; it raises nothing. A fault object that is truthy is
  rendered into the field error. But the finding does not carry the text of every fault
  the recorder is given: line 47 tests the truth value of the fault object, not its
  presence, and for an exception object that is falsy the recorder appends the three
  fields function, detail and payload, and no field error. The last two conjuncts are
  the call of the \<^verbatim>\<open>except\<close> branch of \<^verbatim>\<open>fuzz_average\<close> for a target that raises such
  an exception on the empty payload.
\<close>

theorem record_issue_falsy_fault:
  "butlast (record_issue issues function_name detail payload error) = issues
   \<and> length (record_issue issues function_name detail payload error) = Suc (length issues)
   \<and> last (record_issue issues function_name detail payload (Some (PyException k m b True)))
       = [(''function'', PStr function_name), (''detail'', PStr detail), (''payload'', payload),
          (''error'', PStr (k @ ''('' @ m @ '')''))]
   \<and> last (record_issue issues function_name detail payload (Some (PyException k m b False)))
       = [(''function'', PStr function_name), (''detail'', PStr detail), (''payload'', payload)]
   \<and> record_issue [] ''Average'' ''Exception during average'' (PList [])
        (Some (PyException ''EmptyBatch'' '''' True False))
      = [[(''function'', PStr ''Average''), (''detail'', PStr ''Exception during average''),
          (''payload'', PList [])]]
   \<and> map_of (last (record_issue [] ''Average'' ''Exception during average'' (PList [])
                       (Some (PyException ''EmptyBatch'' '''' True False)))) ''error'' = None"
  by (simp add: record_issue_append repr_exn_def)

section \<open>The oracles\<close>

text \<open>
  C2. In a chunking trial whose target returns normally, a finding is recorded exactly when
  the size is non-positive and the list of chunks is not empty, or the size is positive and
  the chunks put together in order differ from the input; otherwise the collection stays
  as it was.
\<close>

theorem make_chunks_oracle:
  assumes "target data sz = Inr chunks"
  shows "check_make_chunks target issues data sz =
     Inr (if sz \<le> 0 \<and> chunks \<noteq> [] then
        issues @ [[(''function'', PStr ''makeChunks''),
                   (''detail'', PStr ''Expected empty result when chunk size is non-positive''),
                   (''payload'', PDict [(''size'', PInt sz), (''len'', PInt (int (length data))),
                                        (''result_len'', PInt (int (length chunks)))])]]
      else if sz > 0 \<and> concat chunks \<noteq> data then
        issues @ [[(''function'', PStr ''makeChunks''),
                   (''detail'', PStr ''Chunk reconstruction mismatch''),
                   (''payload'', PDict [(''size'', PInt sz),
                                        (''original_len'', PInt (int (length data))),
                                        (''flattened_len'', PInt (int (length (concat chunks))))])]]
      else issues)"
  using assms by (auto simp: check_make_chunks_def record_issue_def Let_def)

theorem make_chunks_oracle_witness:
  "check_make_chunks (\<lambda>d s. Inr [[1, 2], [3, 4], [5]]) [] [1, 2, 3, 4, 5] 2 = Inr []
   \<and> check_make_chunks (\<lambda>d s. Inr []) [] [7, 8, 9] 0 = Inr []
   \<and> check_make_chunks (\<lambda>d s. Inr [[7], [8]]) [] [7, 8, 9] 0
      = Inr [[(''function'', PStr ''makeChunks''),
              (''detail'', PStr ''Expected empty result when chunk size is non-positive''),
              (''payload'', PDict [(''size'', PInt 0), (''len'', PInt 3),
                                   (''result_len'', PInt 2)])]]
   \<and> check_make_chunks (\<lambda>d s. Inr [[7], [8]]) [] [7, 8, 9] 1
      = Inr [[(''function'', PStr ''makeChunks''),
              (''detail'', PStr ''Chunk reconstruction mismatch''),
              (''payload'', PDict [(''size'', PInt 1), (''original_len'', PInt 3),
                                   (''flattened_len'', PInt 2)])]]"
  using make_chunks_oracle [of "\<lambda>d s. Inr [[1, 2], [3, 4], [5]]" "[1, 2, 3, 4, 5]" 2
          "[[1, 2], [3, 4], [5]]" "[]"]
        make_chunks_oracle [of "\<lambda>d s. Inr []" "[7, 8, 9]" 0 "[]" "[]"]
        make_chunks_oracle [of "\<lambda>d s. Inr [[7], [8]]" "[7, 8, 9]" 0 "[[7], [8]]" "[]"]
        make_chunks_oracle [of "\<lambda>d s. Inr [[7], [8]]" "[7, 8, 9]" 1 "[[7], [8]]" "[]"]
  by simp

text \<open>
  C3. In a date-difference trial whose target returns a result, exactly one finding
  "Negative delta returned" is recorded when the result is negative, with a payload that
  holds both timestamps in ISO format and the result; a non-negative result records
  nothing.
\<close>

theorem days_between_oracle:
  assumes "target start_date end_date = Inr result"
  shows "check_days_between target issues start_date end_date =
     Inr (if result < 0 then
        issues @ [[(''function'', PStr ''days_between''),
                   (''detail'', PStr ''Negative delta returned''),
                   (''payload'', PDict [(''start'', PStr (isoformat start_date)),
                                        (''end'', PStr (isoformat end_date)),
                                        (''result'', PInt result)])]]
      else issues)"
  using assms by (simp add: check_days_between_def record_issue_def)

theorem days_between_oracle_witness:
  "check_days_between (\<lambda>a b. Inr (- 5)) []
     \<lparr>year = 2020, month = 1, day = 15, hour = 0, minute = 0\<rparr>
     (plus_days \<lparr>year = 2020, month = 1, day = 15, hour = 0, minute = 0\<rparr> (- 5))
   = Inr [[(''function'', PStr ''days_between''),
       (''detail'', PStr ''Negative delta returned''),
       (''payload'', PDict [(''start'', PStr ''2020-01-15T00:00:00''),
                            (''end'', PStr ''2020-01-10T00:00:00''),
                            (''result'', PInt (- 5))])]]
   \<and> check_days_between (\<lambda>a b. Inr 5) []
     \<lparr>year = 2020, month = 1, day = 15, hour = 0, minute = 0\<rparr>
     (plus_days \<lparr>year = 2020, month = 1, day = 15, hour = 0, minute = 0\<rparr> (- 5)) = Inr []"
  using days_between_oracle [of "\<lambda>a b. Inr (- 5)"
          "\<lparr>year = 2020, month = 1, day = 15, hour = 0, minute = 0\<rparr>"
          "plus_days \<lparr>year = 2020, month = 1, day = 15, hour = 0, minute = 0\<rparr> (- 5)"
          "- 5" "[]"]
        days_between_oracle [of "\<lambda>a b. Inr 5"
          "\<lparr>year = 2020, month = 1, day = 15, hour = 0, minute = 0\<rparr>"
          "plus_days \<lparr>year = 2020, month = 1, day = 15, hour = 0, minute = 0\<rparr> (- 5)"
          "5" "[]"]
  by (simp add: plus_days_scenario isoformat_scenario)

lemma is_float_nan_iff: "is_float_nan r = (r = PFloat NaN)"
  by (cases r) auto

text \<open>
  C4. In an Average trial and in a Median trial whose target returns a result, a finding is
  recorded exactly when the result is the float not-a-number and the payload is not
  empty, and then exactly one; not-a-number on the empty payload records nothing.
\<close>

theorem nan_oracle:
  assumes "avg payload = Inr r1" and "med payload = Inr r2"
  shows "check_average avg issues payload =
     Inr (if r1 = PFloat NaN \<and> payload \<noteq> [] then
        issues @ [[(''function'', PStr ''Average''),
                   (''detail'', PStr ''Average returned NaN for payload with data''),
                   (''payload'', PList payload)]]
      else issues)
   \<and> check_median med issues payload =
     Inr (if r2 = PFloat NaN \<and> payload \<noteq> [] then
        issues @ [[(''function'', PStr ''Median''),
                   (''detail'', PStr ''Median returned NaN for payload with data''),
                   (''payload'', PList payload)]]
      else issues)"
  using assms
  by (simp add: check_average_def check_median_def record_issue_def is_float_nan_iff)

theorem nan_oracle_witness:
  "check_average (\<lambda>p. Inr (PFloat NaN)) [] [PNone, PStr ''noise'', PInt 5]
     = Inr [[(''function'', PStr ''Average''),
             (''detail'', PStr ''Average returned NaN for payload with data''),
             (''payload'', PList [PNone, PStr ''noise'', PInt 5])]]
   \<and> check_median (\<lambda>p. Inr (PFloat NaN)) [] [PNone, PStr ''noise'', PInt 5]
     = Inr [[(''function'', PStr ''Median''),
             (''detail'', PStr ''Median returned NaN for payload with data''),
             (''payload'', PList [PNone, PStr ''noise'', PInt 5])]]
   \<and> check_average (\<lambda>p. Inr (PFloat NaN)) [] [] = Inr []
   \<and> check_median (\<lambda>p. Inr (PFloat NaN)) [] [] = Inr []
   \<and> check_average (\<lambda>p. Inr (PFloat (Fin 5))) [] [PInt 5] = Inr []
   \<and> check_median (\<lambda>p. Inr (PInt 5)) [] [PInt 5] = Inr []"
  using nan_oracle [of "\<lambda>p. Inr (PFloat NaN)" "[PNone, PStr ''noise'', PInt 5]" "PFloat NaN"
          "\<lambda>p. Inr (PFloat NaN)" "PFloat NaN" "[]"]
        nan_oracle [of "\<lambda>p. Inr (PFloat NaN)" "[]" "PFloat NaN"
          "\<lambda>p. Inr (PFloat NaN)" "PFloat NaN" "[]"]
        nan_oracle [of "\<lambda>p. Inr (PFloat (Fin 5))" "[PInt 5]" "PFloat (Fin 5)"
          "\<lambda>p. Inr (PInt 5)" "PInt 5" "[]"]
  by simp

section \<open>Faults of the targets\<close>






lemma propagate_make_chunks:
  "t data sz = Inl e \<Longrightarrow> \<not> is_Exception e \<Longrightarrow> check_make_chunks t issues data sz = Inl e"
  by (simp add: check_make_chunks_def)

lemma propagate_days_between:
  "t a b = Inl e \<Longrightarrow> \<not> is_Exception e \<Longrightarrow> check_days_between t issues a b = Inl e"
  by (simp add: check_days_between_def)

lemma propagate_dump:
  "fst (t content file_path files) = Inl e \<Longrightarrow> \<not> is_Exception e \<Longrightarrow>
   fst (check_dump_content t issues content file_path files) = Inl e"
  by (cases "t content file_path files") (simp add: check_dump_content_def)

lemma propagate_average:
  "t payload = Inl e \<Longrightarrow> \<not> is_Exception e \<Longrightarrow> check_average t issues payload = Inl e"
  by (simp add: check_average_def)

lemma propagate_median:
  "t payload = Inl e \<Longrightarrow> \<not> is_Exception e \<Longrightarrow> check_median t issues payload = Inl e"
  by (simp add: check_median_def)

section \<open>One finding per trial at most\<close>















section \<open>The temporary directory\<close>






section \<open>The numeric-noise generator\<close>

lemma randint_bounds:
  assumes "a \<le> b"
  shows "a \<le> fst (randint a b g)" and "fst (randint a b g) \<le> b"
proof -
  have pos: "0 < nat (b - a + 1)" using assms by simp
  have "g 0 mod nat (b - a + 1) < nat (b - a + 1)" using pos by simp
  then have "int (g 0 mod nat (b - a + 1)) < b - a + 1" using assms by linarith
  then show "fst (randint a b g) \<le> b" by (simp add: randint_def)
  show "a \<le> fst (randint a b g)" by (simp add: randint_def)
qed

lemma random_bounds: "\<exists>u. fst (random g) = Fin u \<and> 0 \<le> u \<and> u < 1"
proof -
  have lt: "g 0 mod 2 ^ 53 < (2::nat) ^ 53" by simp
  have "Fract (int (g 0 mod 2 ^ 53)) (2 ^ 53) = of_nat (g 0 mod 2 ^ 53) / 2 ^ 53"
    by (simp add: Fract_of_int_quotient)
  moreover have "(of_nat (g 0 mod 2 ^ 53) :: rat) < 2 ^ 53"
    using lt by (metis of_nat_less_iff of_nat_numeral of_nat_power)
  ultimately show ?thesis by (simp add: random_def)
qed

lemma choices_Suc:
  "choices (Suc n) options g =
     (fst (choice options g) # fst (choices n options (snd (choice options g))),
      snd (choices n options (snd (choice options g))))"
  by (simp add: Let_def split: prod.split)

lemma choices_length: "length (fst (choices n options g)) = n"
  by (induction n arbitrary: g) (simp_all add: choices_Suc del: choices.simps(2))

lemma choices_subset: "options \<noteq> [] \<Longrightarrow> set (fst (choices n options g)) \<subseteq> set options"
proof (induction n arbitrary: g)
  case 0
  then show ?case by simp
next
  case (Suc n)
  have "fst (choice options g) \<in> set options"
    using Suc.prems by (simp add: choice_def)
  with Suc.IH [OF Suc.prems, of "snd (choice options g)"] show ?case
    by (simp add: choices_Suc del: choices.simps(2))
qed

lemma numeric_options_form:
  "\<exists>n u k. fst (numeric_options g) =
             [PInt n, PFloat (Fin (u * of_int k)), PStr [], PNone, PStr ''noise'']
     \<and> - 1000 \<le> n \<and> n \<le> 1000 \<and> 0 \<le> u \<and> u < 1 \<and> - 10 \<le> k \<and> k \<le> 10"
proof -
  obtain n g1 where n: "randint (- 1000) 1000 g = (n, g1)" by (metis surj_pair)
  obtain u g2 where u: "random g1 = (Fin u, g2)" "0 \<le> u" "u < 1"
    using random_bounds [of g1] by (metis prod.collapse)
  obtain k g3 where k: "randint (- 10) 10 g2 = (k, g3)" by (metis surj_pair)
  have "- 1000 \<le> n" "n \<le> 1000"
    using randint_bounds [of "- 1000" 1000 g] n by simp_all
  moreover have "- 10 \<le> k" "k \<le> 10"
    using randint_bounds [of "- 10" 10 g2] k by simp_all
  moreover have "fst (numeric_options g) =
      [PInt n, PFloat (Fin (u * of_int k)), PStr [], PNone, PStr ''noise'']"
    by (simp add: numeric_options_def n u k)
  ultimately show ?thesis using u by blast
qed

lemma generate_numeric_list_eq:
  "fst (generate_numeric_list g) =
     fst (choices (nat (fst (randint 0 20 (snd (numeric_options g)))))
            (fst (numeric_options g)) (snd (randint 0 20 (snd (numeric_options g)))))"
  by (simp add: generate_numeric_list_def split: prod.split)

lemma numeric_options_nonempty: "fst (numeric_options g) \<noteq> []"
  using numeric_options_form [of g] by auto

lemma generate_numeric_list_subset:
  "set (fst (generate_numeric_list g)) \<subseteq> set (fst (numeric_options g))"
  by (simp only: generate_numeric_list_eq choices_subset [OF numeric_options_nonempty])

lemma generate_numeric_list_length: "length (fst (generate_numeric_list g)) \<le> 20"
  using randint_bounds [of 0 20 "snd (numeric_options g)"]
  by (simp add: generate_numeric_list_eq choices_length)

lemma choices_draws:
  "list_all (\<lambda>i. i < length options) idx \<Longrightarrow>
   choices (length idx) options (draws_of (idx @ rest)) = (map (nth options) idx, draws_of rest)"
  by (induction idx) (simp_all add: choice_def draws_of_advance draws_of_0)

lemma numeric_options_draws:
  "numeric_options (draws_of (a # r # k # rest)) =
     ([PInt (- 1000 + int (a mod 2001)),
       PFloat (Fin (Fract (int (r mod 2 ^ 53)) (2 ^ 53) * of_int (- 10 + int (k mod 21)))),
       PStr [], PNone, PStr ''noise''], draws_of rest)"
  by (simp add: numeric_options_def randint_def random_def draws_of_advance draws_of_0)

lemma generate_numeric_list_draws:
  assumes "length idx \<le> 20" and "list_all (\<lambda>i. i < 5) idx"
  shows "fst (generate_numeric_list (draws_of (a # r # k # length idx # idx))) =
     map (nth [PInt (- 1000 + int (a mod 2001)),
               PFloat (Fin (Fract (int (r mod 2 ^ 53)) (2 ^ 53) * of_int (- 10 + int (k mod 21)))),
               PStr [], PNone, PStr ''noise'']) idx"
proof -
  let ?opts = "[PInt (- 1000 + int (a mod 2001)),
               PFloat (Fin (Fract (int (r mod 2 ^ 53)) (2 ^ 53) * of_int (- 10 + int (k mod 21)))),
               PStr [], PNone, PStr ''noise'']"
  have l: "length idx mod 21 = length idx" using assms(1) by simp
  have five: "length ?opts = 5" by simp
  from assms(2) have "list_all (\<lambda>i. i < length ?opts) idx" by (simp only: five)
  then have c: "choices (length idx) ?opts (draws_of (idx @ [])) =
                  (map (nth ?opts) idx, draws_of [])"
    by (rule choices_draws)
  show ?thesis
    using c by (simp add: generate_numeric_list_def numeric_options_draws randint_def
        draws_of_advance draws_of_0 l)
qed

text \<open>
  C7, as amended. A generated list has at most 20 elements, and each element is one of the
  five options of the call: an integer in [-1000, 1000], a float that is a number of
  [0, 1) times an integer in [-10, 10], the empty string, None, or the string noise. The
  integer and the float are drawn once per list, not once per element. The elements are
  free choices among the five options: for every integer n, every float numerator m and
  every factor k in their ranges, and every sequence of at most 20 positions among the
  five options, some state of the random source generates exactly the list of the
  options at these positions.
\<close>

theorem numeric_list_shape:
  "length (fst (generate_numeric_list g)) \<le> 20
   \<and> set (fst (generate_numeric_list g)) \<subseteq> set (fst (numeric_options g))
   \<and> (\<exists>n u k. fst (numeric_options g) =
                 [PInt n, PFloat (Fin (u * of_int k)), PStr [], PNone, PStr ''noise'']
        \<and> - 1000 \<le> n \<and> n \<le> 1000 \<and> 0 \<le> u \<and> u < 1 \<and> - 10 \<le> k \<and> k \<le> 10)
   \<and> (- 1000 \<le> n \<and> n \<le> 1000 \<and> m < 2 ^ 53 \<and> - 10 \<le> k \<and> k \<le> 10
        \<and> length idx \<le> 20 \<and> list_all (\<lambda>i. i < 5) idx \<longrightarrow>
       fst (generate_numeric_list
              (draws_of (nat (n + 1000) # m # nat (k + 10) # length idx # idx))) =
         map (nth [PInt n, PFloat (Fin (Fract (int m) (2 ^ 53) * of_int k)),
                   PStr [], PNone, PStr ''noise'']) idx)"
proof -
  have "fst (generate_numeric_list
              (draws_of (nat (n + 1000) # m # nat (k + 10) # length idx # idx))) =
         map (nth [PInt n, PFloat (Fin (Fract (int m) (2 ^ 53) * of_int k)),
                   PStr [], PNone, PStr ''noise'']) idx"
    if h: "- 1000 \<le> n" "n \<le> 1000" "m < 2 ^ 53" "- 10 \<le> k" "k \<le> 10"
      "length idx \<le> 20" "list_all (\<lambda>i. i < 5) idx"
  proof -
    have "- 1000 + int (nat (n + 1000) mod 2001) = n" using h(1,2) by simp
    moreover have "m mod 2 ^ 53 = m" using h(3) by simp
    moreover have "- 10 + int (nat (k + 10) mod 21) = k" using h(4,5) by simp
    ultimately show ?thesis
      using generate_numeric_list_draws [OF h(6,7), of "nat (n + 1000)" m "nat (k + 10)"]
      by simp
  qed
  then show ?thesis
    using generate_numeric_list_length generate_numeric_list_subset numeric_options_form
    by blast
qed

theorem numeric_list_shape_witness:
  "fst (generate_numeric_list (draws_of [1005, 0, 13, 4, 0, 4, 0, 2]))
     = [PInt 5, PStr ''noise'', PInt 5, PStr []]
   \<and> fst (generate_numeric_list (draws_of [1005, 0, 13, 4, 2, 2, 2, 2]))
     = [PStr [], PStr [], PStr [], PStr []]
   \<and> fst (generate_numeric_list (draws_of [1005, 0, 13, 0])) = []"
proof -
  have e1: "nat (5 + 1000) # 0 # nat (3 + 10) # length [0, 4, 0, 2 :: nat] # [0, 4, 0, 2]
              = [1005, 0, 13, 4, 0, 4, 0, 2]" by simp
  have e2: "nat (5 + 1000) # 0 # nat (3 + 10) # length [2, 2, 2, 2 :: nat] # [2, 2, 2, 2]
              = [1005, 0, 13, 4, 2, 2, 2, 2]" by simp
  have e3: "nat (5 + 1000) # 0 # nat (3 + 10) # length ([] :: nat list) # []
              = [1005, 0, 13, 0]" by simp
  from numeric_list_shape [where n = 5 and m = 0 and k = 3 and idx = "[0, 4, 0, 2]"]
  have "fst (generate_numeric_list
               (draws_of (nat (5 + 1000) # 0 # nat (3 + 10) # length [0, 4, 0, 2 :: nat]
                            # [0, 4, 0, 2])))
          = [PInt 5, PStr ''noise'', PInt 5, PStr []]" by simp
  moreover
  from numeric_list_shape [where n = 5 and m = 0 and k = 3 and idx = "[2, 2, 2, 2]"]
  have "fst (generate_numeric_list
               (draws_of (nat (5 + 1000) # 0 # nat (3 + 10) # length [2, 2, 2, 2 :: nat]
                            # [2, 2, 2, 2])))
          = [PStr [], PStr [], PStr [], PStr []]" by simp
  moreover
  from numeric_list_shape [where n = 5 and m = 0 and k = 3 and idx = "[]"]
  have "fst (generate_numeric_list
               (draws_of (nat (5 + 1000) # 0 # nat (3 + 10) # length ([] :: nat list) # [])))
          = []" by simp
  ultimately show ?thesis unfolding e1 e2 e3 by blast
qed

lemma one_integer_per_list:
  assumes "PInt a \<in> set (fst (generate_numeric_list g))"
    and "PInt b \<in> set (fst (generate_numeric_list g))"
  shows "a = b"
proof -
  obtain n u k where
    "fst (numeric_options g) = [PInt n, PFloat (Fin (u * of_int k)), PStr [], PNone, PStr ''noise'']"
    using numeric_options_form [of g] by blast
  with generate_numeric_list_subset [of g] assms show ?thesis by auto
qed

text \<open>
  C7 as stated fails: the integers of one list are all the same draw, so no state of the
  random source yields a list with two different integers.
\<close>

theorem numeric_list_not_independent_counterexample:
  "fst (generate_numeric_list (draws_of [1005, 0, 10, 2, 0, 0])) = [PInt 5, PInt 5]
   \<and> \<not> (\<exists>g. fst (generate_numeric_list g) = [PInt 5, PInt 6])"
proof -
  have "fst (generate_numeric_list (draws_of [1005, 0, 10, 2, 0, 0])) = [PInt 5, PInt 5]"
    by (simp add: generate_numeric_list_def numeric_options_def rng_eval)
  moreover have "\<not> (\<exists>g. fst (generate_numeric_list g) = [PInt 5, PInt 6])"
  proof
    assume "\<exists>g. fst (generate_numeric_list g) = [PInt 5, PInt 6]"
    then obtain g where "fst (generate_numeric_list g) = [PInt 5, PInt 6]" ..
    then have "(5::int) = 6" using one_integer_per_list [of 5 g 6] by simp
    then show False by simp
  qed
  ultimately show ?thesis by blast
qed

section \<open>The destination paths\<close>

lemma digit_char_inj: "a < 10 \<Longrightarrow> b < 10 \<Longrightarrow> digit_char a = digit_char b \<Longrightarrow> a = b"
proof -
  assume a: "a < 10" and b: "b < 10" and e: "digit_char a = digit_char b"
  have d: "distinct ''0123456789''" by simp
  have "a < length ''0123456789''" "b < length ''0123456789''" using a b by simp_all
  with d e show "a = b" unfolding digit_char_def by (simp only: nth_eq_iff_index_eq)
qed

lemma str_nat_nonempty: "str_nat n \<noteq> []"
  by (subst str_nat.simps) simp

lemma str_nat_inj: "str_nat m = str_nat n \<Longrightarrow> m = n"
proof (induction m arbitrary: n rule: str_nat.induct)
  case (1 m)
  show ?case
  proof (cases "m < 10")
    case True
    then have m: "str_nat m = [digit_char m]" by (subst str_nat.simps) simp
    show ?thesis
    proof (cases "n < 10")
      case True
      then have "str_nat n = [digit_char n]" by (subst str_nat.simps) simp
      with m "1.prems" have "digit_char m = digit_char n" by simp
      with \<open>m < 10\<close> True show ?thesis by (rule digit_char_inj)
    next
      case False
      then have "str_nat n = str_nat (n div 10) @ [digit_char (n mod 10)]"
        by (subst str_nat.simps) simp
      with m "1.prems" have "str_nat (n div 10) = []" by simp
      then show ?thesis using str_nat_nonempty by blast
    qed
  next
    case False
    then have m: "str_nat m = str_nat (m div 10) @ [digit_char (m mod 10)]"
      by (subst str_nat.simps) simp
    show ?thesis
    proof (cases "n < 10")
      case True
      then have "str_nat n = [digit_char n]" by (subst str_nat.simps) simp
      with m "1.prems" have "str_nat (m div 10) = []" by simp
      then show ?thesis using str_nat_nonempty by blast
    next
      case n: False
      then have "str_nat n = str_nat (n div 10) @ [digit_char (n mod 10)]"
        by (subst str_nat.simps) simp
      with m "1.prems" have e: "str_nat (m div 10) = str_nat (n div 10)"
        and d: "digit_char (m mod 10) = digit_char (n mod 10)" by simp_all
      from "1.IH" [OF False e] have q: "m div 10 = n div 10" .
      have "m mod 10 = n mod 10" using d by (intro digit_char_inj) simp_all
      with q show ?thesis by (metis div_mult_mod_eq)
    qed
  qed
qed

lemma fuzz_path_inj:
  assumes "0 \<le> j" and "0 \<le> k" and "fuzz_path temp_dir j = fuzz_path temp_dir k"
  shows "j = k"
proof -
  from assms have "str_nat (nat j) = str_nat (nat k)"
    by (simp add: fuzz_path_def path_join_def str_int_def)
  then have "nat j = nat k" by (rule str_nat_inj)
  with assms show ?thesis by simp
qed

lemma trial_paths_numbers:
  "trial_paths t temp_dir n s = map (fuzz_path temp_dir) (trial_numbers t temp_dir n s)"
  by (induction n arbitrary: s) (simp_all add: dump_input_def split: prod.split sum.split)

lemma dump_number_range:
  "0 \<le> snd (fst (dump_draws g)) \<and> snd (fst (dump_draws g)) \<le> 999999"
proof -
  obtain n g1 where n: "randint 0 2048 g = (n, g1)" by (metis surj_pair)
  obtain codes g2 where c: "randints (nat n) 32 126 g1 = (codes, g2)" by (metis surj_pair)
  have "snd (fst (dump_draws g)) = fst (randint 0 999999 g2)"
    by (simp add: dump_draws_def n c split: prod.split)
  then show ?thesis using randint_bounds [of 0 999999 g2] by simp
qed

lemma trial_numbers_range:
  "list_all (\<lambda>k. 0 \<le> k \<and> k \<le> 999999) (trial_numbers t temp_dir n s)"
  by (induction n arbitrary: s) (simp_all add: dump_number_range split: sum.split)

lemma distinct_paths_iff:
  "list_all (\<lambda>k. 0 \<le> k) ks \<Longrightarrow>
   distinct (map (fuzz_path temp_dir) ks) = distinct ks"
proof -
  assume "list_all (\<lambda>k. 0 \<le> k) ks"
  then have "inj_on (fuzz_path temp_dir) (set ks)"
    by (auto simp: inj_on_def list_all_iff intro: fuzz_path_inj)
  then show ?thesis by (simp add: distinct_map)
qed

text \<open>
  C8, as amended. The destination path of every trial of a content-dump campaign is the
  file fuzz-k.txt in the temporary directory, for the number k in [0, 999999] that the
  trial draws; two trials have different paths exactly when they draw different numbers.
\<close>

theorem dump_paths_shape:
  "trial_paths t temp_dir n s = map (fuzz_path temp_dir) (trial_numbers t temp_dir n s)
   \<and> list_all (\<lambda>k. 0 \<le> k \<and> k \<le> 999999) (trial_numbers t temp_dir n s)
   \<and> distinct (trial_paths t temp_dir n s) = distinct (trial_numbers t temp_dir n s)"
proof -
  have "list_all (\<lambda>k. 0 \<le> k) (trial_numbers t temp_dir n s)"
    using trial_numbers_range [of t temp_dir n s] by (simp add: list_all_iff)
  then show ?thesis
    by (simp add: trial_paths_numbers trial_numbers_range distinct_paths_iff)
qed

text \<open>
  C8 as stated fails: from a state of the random source whose draws repeat, two trials of
  one campaign write to the same path.
\<close>

theorem dump_paths_collide_counterexample:
  "trial_paths (\<lambda>content path files. (Inr (int (length content)),
                   files(path \<mapsto> Node False (length content))))
     ''/tmp/tmpab12'' 2 ([], draws_of [0, 7, 0, 7], Map.empty)
   = [''/tmp/tmpab12/fuzz-7.txt'', ''/tmp/tmpab12/fuzz-7.txt'']"
  by (simp add: numeral_2_eq_2 dump_trial_def dump_input_zero fuzz_path_7
      check_dump_content_def stat_size_def)

section \<open>The shape of a finding\<close>

lemma for_range_invariant:
  assumes "\<And>s s'. I s \<Longrightarrow> body s = Inr s' \<Longrightarrow> I s'" and "I s"
  shows "on_return I (for_range n body s)"
  using assms(2)
proof (induction n arbitrary: s)
  case 0
  then show ?case by (simp add: on_return_def)
next
  case (Suc n)
  show ?case
  proof (cases "body s")
    case (Inl e)
    then show ?thesis by (simp add: on_return_def)
  next
    case (Inr s')
    with Suc.IH [OF assms(1) [OF Suc.prems Inr]] show ?thesis by simp
  qed
qed

lemma record_ok:
  "f \<noteq> [] \<Longrightarrow> d \<noteq> [] \<Longrightarrow> list_all finding_fields_ok issues \<Longrightarrow>
   list_all finding_fields_ok (record_issue issues f d p err)"
  by (cases err) (simp_all add: record_issue_append finding_fields_ok_def)

lemma ok_make_chunks:
  "list_all finding_fields_ok issues \<Longrightarrow>
   on_return (list_all finding_fields_ok) (check_make_chunks t issues data sz)"
  by (auto simp: on_return_def check_make_chunks_def Let_def record_ok split: sum.split)

lemma ok_days_between:
  "list_all finding_fields_ok issues \<Longrightarrow>
   on_return (list_all finding_fields_ok) (check_days_between t issues a b)"
  by (auto simp: on_return_def check_days_between_def record_ok split: sum.split)

lemma ok_dump:
  "list_all finding_fields_ok issues \<Longrightarrow>
   on_return (list_all finding_fields_ok) (fst (check_dump_content t issues c p files))"
  by (auto simp: on_return_def check_dump_content_def Let_def record_ok
      split: sum.split prod.split)

lemma ok_average:
  "list_all finding_fields_ok issues \<Longrightarrow>
   on_return (list_all finding_fields_ok) (check_average t issues payload)"
  by (auto simp: on_return_def check_average_def record_ok split: sum.split)

lemma ok_median:
  "list_all finding_fields_ok issues \<Longrightarrow>
   on_return (list_all finding_fields_ok) (check_median t issues payload)"
  by (auto simp: on_return_def check_median_def record_ok split: sum.split)

lemma ok_make_chunks_trial:
  assumes "list_all finding_fields_ok (fst s)" and "make_chunks_trial t s = Inr s'"
  shows "list_all finding_fields_ok (fst s')"
proof -
  obtain issues g where s: "s = (issues, g)" by (metis surj_pair)
  obtain data sz g' where i: "chunk_input g = ((data, sz), g')" by (metis surj_pair)
  from ok_make_chunks [of issues t data sz] assms show ?thesis
    by (auto simp: make_chunks_trial_def s i on_return_def split: sum.splits)
qed

lemma ok_days_between_trial:
  assumes "list_all finding_fields_ok (fst s)" and "days_between_trial t s = Inr s'"
  shows "list_all finding_fields_ok (fst s')"
proof -
  obtain issues g where s: "s = (issues, g)" by (metis surj_pair)
  obtain a b g' where i: "date_pair_input g = ((a, b), g')" by (metis surj_pair)
  from ok_days_between [of issues t a b] assms show ?thesis
    by (auto simp: days_between_trial_def s i on_return_def split: sum.splits)
qed

lemma ok_dump_trial:
  assumes "list_all finding_fields_ok (fst s)" and "dump_trial t temp_dir s = Inr s'"
  shows "list_all finding_fields_ok (fst s')"
proof -
  obtain issues g files where s: "s = (issues, g, files)" by (metis prod_cases3)
  obtain content file_path g' where i: "dump_input temp_dir g = ((content, file_path), g')"
    by (metis surj_pair)
  obtain r files' where c: "check_dump_content t issues content file_path files = (r, files')"
    by (metis surj_pair)
  from ok_dump [of issues t content file_path files] assms show ?thesis
    by (auto simp: dump_trial_def s i c on_return_def split: sum.splits)
qed

lemma ok_average_trial:
  assumes "list_all finding_fields_ok (fst s)" and "average_trial t s = Inr s'"
  shows "list_all finding_fields_ok (fst s')"
proof -
  obtain issues g where s: "s = (issues, g)" by (metis surj_pair)
  obtain payload g' where i: "generate_numeric_list g = (payload, g')" by (metis surj_pair)
  from ok_average [of issues t payload] assms show ?thesis
    by (auto simp: average_trial_def s i on_return_def split: sum.splits)
qed

lemma ok_median_trial:
  assumes "list_all finding_fields_ok (fst s)" and "median_trial t s = Inr s'"
  shows "list_all finding_fields_ok (fst s')"
proof -
  obtain issues g where s: "s = (issues, g)" by (metis surj_pair)
  obtain payload g' where i: "generate_numeric_list g = (payload, g')" by (metis surj_pair)
  from ok_median [of issues t payload] assms show ?thesis
    by (auto simp: median_trial_def s i on_return_def split: sum.splits)
qed

lemma ok_fuzz_make_chunks:
  "on_return (\<lambda>r. list_all finding_fields_ok (fst r)) (fuzz_make_chunks t n g)"
  unfolding fuzz_make_chunks_def
  by (rule for_range_invariant) (simp_all add: ok_make_chunks_trial)

lemma ok_fuzz_days_between:
  "on_return (\<lambda>r. list_all finding_fields_ok (fst r)) (fuzz_days_between t n g)"
  unfolding fuzz_days_between_def
  by (rule for_range_invariant) (simp_all add: ok_days_between_trial)

lemma ok_fuzz_dump_content:
  "on_return (\<lambda>r. list_all finding_fields_ok (fst r)) (fuzz_dump_content t temp_dir n w)"
proof -
  obtain g files where w: "w = (g, files)" by (metis surj_pair)
  have "on_return (\<lambda>r. list_all finding_fields_ok (fst r))
          (for_range (nat n) (dump_trial t temp_dir) ([], g, mkdtemp temp_dir files))"
    by (rule for_range_invariant) (simp_all add: ok_dump_trial)
  then show ?thesis
    by (auto simp: fuzz_dump_content_def w on_return_def split: sum.splits prod.splits)
qed

lemma ok_fuzz_average:
  "on_return (\<lambda>r. list_all finding_fields_ok (fst r)) (fuzz_average t n g)"
  unfolding fuzz_average_def
  by (rule for_range_invariant) (simp_all add: ok_average_trial)

lemma ok_fuzz_median:
  "on_return (\<lambda>r. list_all finding_fields_ok (fst r)) (fuzz_median t n g)"
  unfolding fuzz_median_def
  by (rule for_range_invariant) (simp_all add: ok_median_trial)

lemma ok_on_rng:
  assumes "\<And>g. on_return (\<lambda>r. list_all finding_fields_ok (fst r)) (campaign g)"
  shows "on_return (\<lambda>r. list_all finding_fields_ok (fst r)) (on_rng campaign w)"
proof -
  obtain g files where w: "w = (g, files)" by (metis surj_pair)
  from assms [of g] show ?thesis
    by (auto simp: on_rng_def w on_return_def split: sum.splits)
qed

lemma ok_dump_fuzzer:
  "on_return (\<lambda>r. list_all finding_fields_ok (fst r))
     (case fuzz_dump_content t temp_dir n w of
        Inl (exc, files') \<Rightarrow> Inl exc
      | Inr (issues, g', files') \<Rightarrow> Inr (issues, (g', files')))"
  using ok_fuzz_dump_content [of t temp_dir n w]
  by (auto simp: on_return_def split: sum.splits)

lemma ok_run_fuzzers:
  assumes "\<And>name func w. (name, func) \<in> set fs \<Longrightarrow>
             on_return (\<lambda>r. list_all finding_fields_ok (fst r)) (func w)"
    and "list_all finding_fields_ok all_issues"
  shows "on_return (\<lambda>r. list_all finding_fields_ok (fst r)) (run_fuzzers fs all_issues w)"
  using assms
proof (induction fs arbitrary: all_issues w)
  case Nil
  then show ?case by (simp add: on_return_def)
next
  case (Cons nf fs)
  obtain name func where nf: "nf = (name, func)" by (metis surj_pair)
  show ?case
  proof (cases "func w")
    case (Inl e)
    then show ?thesis by (simp add: nf on_return_def)
  next
    case (Inr r)
    obtain issues w' where r: "r = (issues, w')" by (metis surj_pair)
    have "on_return (\<lambda>r. list_all finding_fields_ok (fst r)) (func w)"
      by (rule Cons.prems(1) [of name]) (simp add: nf)
    with Inr r have "list_all finding_fields_ok issues" by (simp add: on_return_def)
    with Cons.prems(2) have a:
      "list_all finding_fields_ok (if issues \<noteq> [] then all_issues @ issues else all_issues)"
      by simp
    have "on_return (\<lambda>r. list_all finding_fields_ok (fst r))
            (run_fuzzers fs (if issues \<noteq> [] then all_issues @ issues else all_issues) w')"
    proof (rule Cons.IH)
      fix name' func' w''
      assume "(name', func') \<in> set fs"
      then show "on_return (\<lambda>r. list_all finding_fields_ok (fst r)) (func' w'')"
        using Cons.prems(1) [of name' func' w''] by simp
    next
      show "list_all finding_fields_ok
              (if issues \<noteq> [] then all_issues @ issues else all_issues)"
        by (rule a)
    qed
    with Inr r show ?thesis by (simp add: nf)
  qed
qed

lemma ok_main:
  "on_return (\<lambda>r. list_all finding_fields_ok (fst (snd r))) (main ts temp_dir w)"
proof -
  have "on_return (\<lambda>r. list_all finding_fields_ok (fst r))
          (run_fuzzers (fuzzers ts temp_dir) [] w)"
  proof (rule ok_run_fuzzers)
    fix name func w'
    assume "(name, func) \<in> set (fuzzers ts temp_dir)"
    then show "on_return (\<lambda>r. list_all finding_fields_ok (fst r)) (func w')"
      by (auto simp: fuzzers_def
          intro: ok_on_rng ok_dump_fuzzer ok_fuzz_make_chunks ok_fuzz_days_between
            ok_fuzz_average ok_fuzz_median)
  next
    show "list_all finding_fields_ok []" by simp
  qed
  then show ?thesis
    by (auto simp: main_def on_return_def split: sum.splits)
qed

text \<open>
  C5, as amended. Every finding that a campaign or the whole run returns is a dictionary
  with the fields function, detail and payload, where function and detail hold non-empty
  strings, and possibly one more field, error. The recorder gives a finding no field
  error when no fault was handed to it, and the field error with the text of the fault
  when the fault handed to it is a truthy object. The field that names the target is
  called function: no finding has a field called target.
\<close>

theorem finding_structure:
  "on_return (\<lambda>r. list_all finding_fields_ok (fst r)) (fuzz_make_chunks tc n g)
   \<and> on_return (\<lambda>r. list_all finding_fields_ok (fst r)) (fuzz_days_between td n g)
   \<and> on_return (\<lambda>r. list_all finding_fields_ok (fst r)) (fuzz_dump_content tw temp_dir n w)
   \<and> on_return (\<lambda>r. list_all finding_fields_ok (fst r)) (fuzz_average ta n g)
   \<and> on_return (\<lambda>r. list_all finding_fields_ok (fst r)) (fuzz_median tm n g)
   \<and> on_return (\<lambda>r. list_all finding_fields_ok (fst (snd r))) (main ts temp_dir w)
   \<and> map_of (last (record_issue issues function_name detail payload None)) ''error'' = None
   \<and> (truthy e \<longrightarrow>
        map_of (last (record_issue issues function_name detail payload (Some e))) ''error''
          = Some (PStr (repr_exn e)))
   \<and> map_of (last (record_issue issues function_name detail payload error)) ''function''
       = Some (PStr function_name)
   \<and> map_of (last (record_issue issues function_name detail payload error)) ''detail''
       = Some (PStr detail)
   \<and> map_of (last (record_issue issues function_name detail payload error)) ''payload''
       = Some payload
   \<and> map_of (last (record_issue issues function_name detail payload error)) ''target'' = None"
  by (cases error)
     (simp_all add: ok_fuzz_make_chunks ok_fuzz_days_between ok_fuzz_dump_content
        ok_fuzz_average ok_fuzz_median ok_main record_issue_append)

theorem finding_structure_witness:
  "returns (\<lambda>r. length (fst r) = 2 \<and> list_all finding_fields_ok (fst r))
     (fuzz_median (\<lambda>p. Inl (builtin_error ''TypeError'' (quoted ''bad operand''))) 2
        (draws_of []))
   \<and> map_of (last (record_issue [] ''Median'' ''Exception during median'' (PList [])
                       (Some (builtin_error ''TypeError'' (quoted ''bad operand''))))) ''error''
       = Some (PStr (''TypeError('' @ quoted ''bad operand'' @ '')''))"
  using finding_structure
    [where tm = "\<lambda>p. Inl (builtin_error ''TypeError'' (quoted ''bad operand''))" and n = 2
       and g = "draws_of []" and e = "builtin_error ''TypeError'' (quoted ''bad operand'')"
       and issues = "[]" and function_name = "''Median''"
       and detail = "''Exception during median''" and payload = "PList []"]
  by (simp add: fuzz_median_def for_range_numeral median_trial_def generate_numeric_list_def
      numeric_options_def rng_eval check_median_def record_issue_append builtin_error_def
      repr_exn_def returns_def on_return_def)

text \<open>
  C5 as stated fails: a finding recorded by the chunking campaign has the name of its
  target under the key function and nothing under the key target.
\<close>

theorem finding_has_no_target_field_counterexample:
  "check_make_chunks (\<lambda>d s. Inr [[7], [8]]) [] [7, 8, 9] 1
     = Inr [[(''function'', PStr ''makeChunks''),
         (''detail'', PStr ''Chunk reconstruction mismatch''),
         (''payload'', PDict [(''size'', PInt 1), (''original_len'', PInt 3),
                              (''flattened_len'', PInt 2)])]]
   \<and> map_of [(''function'', PStr ''makeChunks''),
         (''detail'', PStr ''Chunk reconstruction mismatch''),
         (''payload'', PDict [(''size'', PInt 1), (''original_len'', PInt 3),
                              (''flattened_len'', PInt 2)])] ''target'' = None"
  by (simp add: check_make_chunks_def record_issue_append)

section \<open>The campaigns and the run go on\<close>






























end
